theory Spec2Isabelle
  imports Complex_Main
begin

section \<open>Python and NumPy values\<close>

text \<open>
  The exceptions that can leave a post-processing operation. The first five are raised
  by Python, NumPy and SciPy. The last three are the error kinds named by the
  specification; no statement of \<^verbatim>\<open>operations.py\<close> or of the plotting script raises them.
\<close>

datatype error =
    IndexError | TypeError | KeyError | ValueError | OSError
  | InsufficientDataError | DegenerateInputError | MissingFileError

text \<open>
  A result of floating-point arithmetic. Finite values are real numbers and the
  arithmetic on them is exact: the rounding and the overflow of IEEE doubles are not
  part of this model. \<open>NaN\<close> is the value NumPy returns for \<open>0/0\<close> (with a warning, not an
  exception); it spreads through every operation.
\<close>

datatype float64 = Num real | NaN

fun fsub :: "float64 \<Rightarrow> float64 \<Rightarrow> float64" where
  "fsub (Num a) (Num b) = Num (a - b)"
| "fsub _ _ = NaN"

text \<open>
  A NumPy array of finite numbers, of dimension 0, 1 or 2. A two-dimensional array
  \<open>Arr2 m rows\<close> carries its number of columns \<open>m\<close>, since an array of shape \<open>(0, m)\<close> has
  no row to read it from; each of its rows has \<open>m\<close> entries.
\<close>

datatype ndarray = Arr0 real | Arr1 "real list" | Arr2 nat "real list list"

text \<open>\<^verbatim>\<open>len(data)\<close>: the size of the first axis; a 0-dimensional array has none.\<close>

fun py_len :: "ndarray \<Rightarrow> error + nat" where
  "py_len (Arr0 _) = Inl TypeError"
| "py_len (Arr1 xs) = Inr (length xs)"
| "py_len (Arr2 m rows) = Inr (length rows)"

text \<open>
  \<^verbatim>\<open>data[k:, col]\<close>: rows \<open>k\<close> onwards of column \<open>col\<close>. Two indices on an array of fewer
  than two dimensions, or a column that the shape does not have, raise
  \<^verbatim>\<open>IndexError\<close>; a start \<open>k\<close> beyond the last row gives the empty slice.
\<close>

fun slice_column :: "ndarray \<Rightarrow> nat \<Rightarrow> nat \<Rightarrow> error + real list" where
  "slice_column (Arr2 m rows) k col =
     (if col < m then Inr (map (\<lambda>r. r ! col) (drop k rows)) else Inl IndexError)"
| "slice_column _ k col = Inl IndexError"

text \<open>
  \<^verbatim>\<open>np.mean\<close> and \<^verbatim>\<open>np.std\<close> (population standard deviation) of a one-dimensional
  array: the mean of an empty slice is \<open>0/0\<close>.
\<close>

definition np_mean :: "real list \<Rightarrow> float64" where
  "np_mean xs = (if xs = [] then NaN else Num (sum_list xs / real (length xs)))"

definition np_std :: "real list \<Rightarrow> float64" where
  "np_std xs =
     (if xs = [] then NaN
      else let m = sum_list xs / real (length xs)
           in Num (sqrt (sum_list (map (\<lambda>x. (x - m)\<^sup>2) xs) / real (length xs))))"

text \<open>\<^verbatim>\<open>a + b\<close> on two one-dimensional arrays of the same length.\<close>

definition np_add :: "real list \<Rightarrow> real list \<Rightarrow> real list" where
  "np_add xs ys = map2 (+) xs ys"

text \<open>\<^verbatim>\<open>np.logical_not\<close> on a boolean array.\<close>

definition np_logical_not :: "bool list \<Rightarrow> bool list" where
  "np_logical_not flags = map (\<lambda>b. \<not> b) flags"

subsection \<open>The start index \<^verbatim>\<open>int(len(data)*0.6)\<close>\<close>

text \<open>
  The product is a double-precision multiplication, so here the rounding is modelled.
  A positive double is a natural number of at most 53 significant bits times a power
  of two. \<open>round_half_even_53 N\<close> rounds the natural number \<open>N\<close> to 53 significant bits,
  ties to even. The literal \<^verbatim>\<open>0.6\<close> is the double \<open>5404319552844595 / 2^53\<close> and \<^verbatim>\<open>0.5\<close>
  is \<open>4503599627370496 / 2^53\<close>; a fraction is represented by this numerator.
  \<open>py_int_mul n c\<close> is \<^verbatim>\<open>int(n * c)\<close>: \<open>n\<close> is converted to a double, the exact product
  \<open>float(n) * c / 2^53\<close> is rounded to a double, and \<^verbatim>\<open>int\<close> truncates it. (Numbers
  beyond the exponent range of a double do not occur as array lengths and are not
  modelled.)
\<close>

fun bit_length :: "nat \<Rightarrow> nat" where
  "bit_length n = (if n = 0 then 0 else Suc (bit_length (n div 2)))"

declare bit_length.simps [simp del]

definition round_half_even_53 :: "nat \<Rightarrow> nat" where
  "round_half_even_53 N =
     (let s = bit_length N - 53; q = N div 2 ^ s; r = N mod 2 ^ s
      in (if 2 ^ s < 2 * r \<or> (2 * r = 2 ^ s \<and> odd q) then q + 1 else q) * 2 ^ s)"

definition py_float :: "nat \<Rightarrow> nat" where
  "py_float n = round_half_even_53 n"

definition dbl_0_6 :: nat where
  "dbl_0_6 = 5404319552844595"

definition dbl_0_5 :: nat where
  "dbl_0_5 = 4503599627370496"


definition py_int_mul :: "nat \<Rightarrow> nat \<Rightarrow> nat" where
  "py_int_mul n c = round_half_even_53 (py_float n * c) div 2 ^ 53"

subsection \<open>The time-series reducer\<close>

text \<open>
  The step every post-processing operation repeats:
  \<^verbatim>\<open>np.mean(data[int(len(data)*skip):, col])\<close>. \<open>tail_column\<close> is the slice (the tail
  window) and \<open>tail_mean\<close> its mean.
\<close>

definition tail_column :: "nat \<Rightarrow> ndarray \<Rightarrow> nat \<Rightarrow> error + real list" where
  "tail_column skip data col =
     (case py_len data of
        Inl e \<Rightarrow> Inl e
      | Inr n \<Rightarrow> slice_column data (py_int_mul n skip) col)"

definition tail_mean :: "nat \<Rightarrow> ndarray \<Rightarrow> nat \<Rightarrow> error + float64" where
  "tail_mean skip data col =
     (case tail_column skip data col of
        Inl e \<Rightarrow> Inl e
      | Inr window \<Rightarrow> Inr (np_mean window))"

subsection \<open>String formatting\<close>

text \<open>\<^verbatim>\<open>'{}'.format(i)\<close> for an integer: its decimal digits.\<close>

definition digit_char :: "nat \<Rightarrow> char" where
  "digit_char d = ''0123456789'' ! d"

fun digits10 :: "nat \<Rightarrow> string" where
  "digits10 n =
     (if n < 10 then [digit_char n] else digits10 (n div 10) @ [digit_char (n mod 10)])"

declare digits10.simps [simp del]

definition py_str :: "int \<Rightarrow> string" where
  "py_str i = (if i < 0 then CHR ''-'' # digits10 (nat (- i)) else digits10 (nat i))"

text \<open>\<^verbatim>\<open>'{}nN'.format(load)\<close> and \<^verbatim>\<open>'shear_{}nN'.format(load)\<close>.\<close>

definition load_key :: "int \<Rightarrow> string" where
  "load_key load = py_str load @ ''nN''"

definition shear_name :: "int \<Rightarrow> string" where
  "shear_name load = ''shear_'' @ py_str load @ ''nN''"

section \<open>Jobs and the external collaborators\<close>

text \<open>
  A job document maps a key to a float, to a dictionary from load label to float, or
  to a pair (a tuple of mean and standard deviation).
\<close>

type_synonym pydict = "string \<rightharpoonup> float64"

datatype docval = Float float64 | Dict pydict | Tuple float64 float64

type_synonym document = "string \<rightharpoonup> docval"

text \<open>
  A job: the statepoint entries the operations read, the files of its workspace (of an
  arbitrary type \<open>'fs\<close>, read and written only by the external functions), and its
  document.
\<close>

record 'fs job =
  sp_n :: int
  sp_terminal_groups :: "string list"
  workspace :: 'fs
  document :: document

text \<open>
  The library functions fed by the file system are parameters.
  \<open>np_loadtxt\<close> takes the file name and \<^verbatim>\<open>skiprows\<close> and returns the array or raises.
  The trajectory analyses of \<^verbatim>\<open>atools.structure_mixed\<close> take their keyword arguments in
  the order \<^verbatim>\<open>traj_filename\<close>, \<^verbatim>\<open>top_filename\<close>, \<^verbatim>\<open>output_filename\<close>, \<^verbatim>\<open>ndx_filename\<close>
  (and \<^verbatim>\<open>n_chains\<close>); they change the files and may raise.
\<close>

record 'fs externals =
  np_loadtxt :: "string \<Rightarrow> nat \<Rightarrow> 'fs \<Rightarrow> error + ndarray"
  calc_nematic_order ::
    "string \<Rightarrow> string \<Rightarrow> string \<Rightarrow> string \<Rightarrow> int \<Rightarrow> 'fs \<Rightarrow> error option \<times> 'fs"
  calc_avg_tilt_angle ::
    "string \<Rightarrow> string \<Rightarrow> string \<Rightarrow> string \<Rightarrow> int \<Rightarrow> 'fs \<Rightarrow> error option \<times> 'fs"
  atools_calc_interdigitation ::
    "string \<Rightarrow> string \<Rightarrow> string \<Rightarrow> string \<Rightarrow> 'fs \<Rightarrow> error option \<times> 'fs"

text \<open>
  How an operation ends: normally, or with an exception. Either way the job is as the
  operation left it.
\<close>

datatype 'a outcome = Done 'a | Raised error 'a

section \<open>The operations of \<^verbatim>\<open>operations.py\<close>\<close>

subsection \<open>\<^verbatim>\<open>scipy.stats.linregress\<close>\<close>

text \<open>
  The least-squares line through the points \<open>(x, y)\<close>, as SciPy computes it: with
  \<open>ssxm\<close> the mean squared deviation of \<open>x\<close> and \<open>ssxym\<close> the mean product of the
  deviations of \<open>x\<close> and \<open>y\<close>, the slope is \<open>ssxym / ssxm\<close> and the intercept is
  \<open>ymean - slope * xmean\<close>. Empty inputs and inputs of different lengths raise
  \<^verbatim>\<open>ValueError\<close>. All \<open>x\<close> equal gives \<open>0/0\<close>: in the SciPy releases of the repository's
  time this is NaN, not an exception. Of the five results only the slope and the
  intercept are used by \<^verbatim>\<open>log_cof\<close>, and only they are modelled.
\<close>

record linregress_result =
  slope :: float64
  intercept :: float64

fun finite_values :: "float64 list \<Rightarrow> real list option" where
  "finite_values [] = Some []"
| "finite_values (Num v # ys) = map_option (\<lambda>vs. v # vs) (finite_values ys)"
| "finite_values (NaN # ys) = None"

definition linregress :: "int list \<Rightarrow> float64 list \<Rightarrow> error + linregress_result" where
  "linregress x y =
     (if x = [] \<or> y = [] \<or> length x \<noteq> length y then Inl ValueError
      else case finite_values y of
        None \<Rightarrow> Inr \<lparr>slope = NaN, intercept = NaN\<rparr>
      | Some ys \<Rightarrow>
          let xs = map real_of_int x;
              n = real (length xs);
              xmean = sum_list xs / n;
              ymean = sum_list ys / n;
              ssxm = sum_list (map (\<lambda>a. (a - xmean) * (a - xmean)) xs) / n;
              ssxym = sum_list (map2 (\<lambda>a b. (a - xmean) * (b - ymean)) xs ys) / n
          in if ssxm = 0 then Inr \<lparr>slope = NaN, intercept = NaN\<rparr>
             else Inr \<lparr>slope = Num (ssxym / ssxm),
                       intercept = Num (ymean - ssxym / ssxm * xmean)\<rparr>)"

subsection \<open>The private helpers that call the trajectory analyses\<close>

text \<open>\<^verbatim>\<open>_calc_S2\<close>, \<^verbatim>\<open>_calc_tilt\<close> and \<^verbatim>\<open>_calc_interdigitation\<close>.\<close>

definition priv_calc_S2 :: "'fs externals \<Rightarrow> string \<Rightarrow> int \<Rightarrow> 'fs \<Rightarrow> error option \<times> 'fs" where
  "priv_calc_S2 ext name n_chains fs =
     calc_nematic_order ext (name @ ''-unwrapped.xtc'') (name @ ''.gro'')
       (name @ ''-S2.txt'') ''init.ndx'' n_chains fs"

definition priv_calc_tilt :: "'fs externals \<Rightarrow> string \<Rightarrow> int \<Rightarrow> 'fs \<Rightarrow> error option \<times> 'fs" where
  "priv_calc_tilt ext name n_chains fs =
     calc_avg_tilt_angle ext (name @ ''-unwrapped.xtc'') (name @ ''.gro'')
       (name @ ''-tilt.txt'') ''init.ndx'' n_chains fs"

definition priv_calc_interdigitation :: "'fs externals \<Rightarrow> string \<Rightarrow> 'fs \<Rightarrow> error option \<times> 'fs" where
  "priv_calc_interdigitation ext name fs =
     atools_calc_interdigitation ext (name @ ''.xtc'') (name @ ''.gro'')
       (name @ ''-interdigitation.txt'') ''init.ndx'' fs"

text \<open>The first loop of \<^verbatim>\<open>calc_S2_shear\<close> and \<^verbatim>\<open>calc_tilt_shear\<close>: one analysis per load.\<close>

primrec analyse_loads ::
  "(string \<Rightarrow> 'fs \<Rightarrow> error option \<times> 'fs) \<Rightarrow> int list \<Rightarrow> 'fs \<Rightarrow> error option \<times> 'fs" where
  "analyse_loads analysis [] fs = (None, fs)"
| "analyse_loads analysis (load # loads) fs =
     (case analysis (shear_name load) fs of
        (Some e, fs') \<Rightarrow> (Some e, fs')
      | (None, fs') \<Rightarrow> analyse_loads analysis loads fs')"

text \<open>
  The second loop of \<^verbatim>\<open>calc_S2_shear\<close> and of \<^verbatim>\<open>calc_tilt_shear\<close>, which differ in the
  file suffix only: load the table, take the tail of columns 1 and 2, and store the two
  means under the load's label in the two dictionaries.
\<close>

primrec surface_means_loop ::
  "'fs externals \<Rightarrow> string \<Rightarrow> 'fs \<Rightarrow> int list \<Rightarrow> pydict \<times> pydict \<Rightarrow> error + pydict \<times> pydict" where
  "surface_means_loop ext suffix fs [] dicts = Inr dicts"
| "surface_means_loop ext suffix fs (load # loads) dicts =
     (case np_loadtxt ext (shear_name load @ suffix) 0 fs of
        Inl e \<Rightarrow> Inl e
      | Inr data \<Rightarrow>
          (case tail_column dbl_0_6 data 1 of
             Inl e \<Rightarrow> Inl e
           | Inr data_bottom \<Rightarrow>
               (case tail_column dbl_0_6 data 2 of
                  Inl e \<Rightarrow> Inl e
                | Inr data_top \<Rightarrow>
                    surface_means_loop ext suffix fs loads
                      ((fst dicts)(load_key load \<mapsto> np_mean data_bottom),
                       (snd dicts)(load_key load \<mapsto> np_mean data_top)))))"

definition calc_S2_shear :: "'fs externals \<Rightarrow> 'fs job \<Rightarrow> 'fs job outcome" where
  "calc_S2_shear ext job =
     (let loads = [5, 15, 25] in
      case analyse_loads (\<lambda>name. priv_calc_S2 ext name (sp_n job)) loads (workspace job) of
        (Some e, fs) \<Rightarrow> Raised e (job\<lparr>workspace := fs\<rparr>)
      | (None, fs) \<Rightarrow>
          (case surface_means_loop ext ''-S2.txt'' fs loads (Map.empty, Map.empty) of
             Inl e \<Rightarrow> Raised e (job\<lparr>workspace := fs\<rparr>)
           | Inr (s2_dict_bottom, s2_dict_top) \<Rightarrow>
               Done (job\<lparr>workspace := fs,
                          document := (document job)
                            (''S2_bottom'' \<mapsto> Dict s2_dict_bottom,
                             ''S2_top'' \<mapsto> Dict s2_dict_top)\<rparr>)))"

definition calc_tilt_shear :: "'fs externals \<Rightarrow> 'fs job \<Rightarrow> 'fs job outcome" where
  "calc_tilt_shear ext job =
     (let loads = [5, 15, 25] in
      case analyse_loads (\<lambda>name. priv_calc_tilt ext name (sp_n job)) loads (workspace job) of
        (Some e, fs) \<Rightarrow> Raised e (job\<lparr>workspace := fs\<rparr>)
      | (None, fs) \<Rightarrow>
          (case surface_means_loop ext ''-tilt.txt'' fs loads (Map.empty, Map.empty) of
             Inl e \<Rightarrow> Raised e (job\<lparr>workspace := fs\<rparr>)
           | Inr (tilt_dict_bottom, tilt_dict_top) \<Rightarrow>
               Done (job\<lparr>workspace := fs,
                          document := (document job)
                            (''tilt_bottom'' \<mapsto> Dict tilt_dict_bottom,
                             ''tilt_top'' \<mapsto> Dict tilt_dict_top)\<rparr>)))"

subsection \<open>\<^verbatim>\<open>log_cof\<close>\<close>

text \<open>The loop appending one mean friction force per load.\<close>

primrec friction_loop ::
  "'fs externals \<Rightarrow> 'fs \<Rightarrow> int list \<Rightarrow> float64 list \<Rightarrow> error + float64 list" where
  "friction_loop ext fs [] friction_forces = Inr friction_forces"
| "friction_loop ext fs (load # loads) friction_forces =
     (case np_loadtxt ext (''friction_'' @ py_str load @ ''nN.txt'') 0 fs of
        Inl e \<Rightarrow> Inl e
      | Inr data \<Rightarrow>
          (case tail_column dbl_0_6 data 1 of
             Inl e \<Rightarrow> Inl e
           | Inr friction_data \<Rightarrow>
               friction_loop ext fs loads (friction_forces @ [np_mean friction_data])))"

text \<open>
  \<open>log_cof_loads\<close> is the body of \<^verbatim>\<open>log_cof\<close> with the local list \<^verbatim>\<open>loads\<close> as a
  parameter; \<open>log_cof\<close> fixes it to \<^verbatim>\<open>[5, 15, 25]\<close> as the source does.
\<close>

definition log_cof_loads :: "'fs externals \<Rightarrow> int list \<Rightarrow> 'fs job \<Rightarrow> 'fs job outcome" where
  "log_cof_loads ext loads job =
     (case friction_loop ext (workspace job) loads [] of
        Inl e \<Rightarrow> Raised e job
      | Inr friction_forces \<Rightarrow>
          (case linregress loads friction_forces of
             Inl e \<Rightarrow> Raised e job
           | Inr res \<Rightarrow>
               Done (job\<lparr>document := (document job)
                            (''COF'' \<mapsto> Float (slope res),
                             ''intercept'' \<mapsto> Float (intercept res))\<rparr>)))"

definition log_cof :: "'fs externals \<Rightarrow> 'fs job \<Rightarrow> 'fs job outcome" where
  "log_cof ext job = log_cof_loads ext [5, 15, 25] job"

subsection \<open>\<^verbatim>\<open>calc_interdigitation\<close>\<close>

text \<open>Here the analysis, the load of its output and the reduction share one loop.\<close>

primrec interdigitation_loop ::
  "'fs externals \<Rightarrow> int list \<Rightarrow> 'fs \<Rightarrow> pydict \<Rightarrow> (error \<times> 'fs) + ('fs \<times> pydict)" where
  "interdigitation_loop ext [] fs interdigitation_dict = Inr (fs, interdigitation_dict)"
| "interdigitation_loop ext (load # loads) fs interdigitation_dict =
     (case priv_calc_interdigitation ext (shear_name load) fs of
        (Some e, fs') \<Rightarrow> Inl (e, fs')
      | (None, fs') \<Rightarrow>
          (case np_loadtxt ext (shear_name load @ ''-interdigitation.txt'') 0 fs' of
             Inl e \<Rightarrow> Inl (e, fs')
           | Inr data \<Rightarrow>
               (case tail_column dbl_0_6 data 1 of
                  Inl e \<Rightarrow> Inl (e, fs')
                | Inr interdigitation_data \<Rightarrow>
                    interdigitation_loop ext loads fs'
                      (interdigitation_dict(load_key load \<mapsto> np_mean interdigitation_data)))))"

definition calc_interdigitation :: "'fs externals \<Rightarrow> 'fs job \<Rightarrow> 'fs job outcome" where
  "calc_interdigitation ext job =
     (case interdigitation_loop ext [5, 15, 25] (workspace job) Map.empty of
        Inl (e, fs) \<Rightarrow> Raised e (job\<lparr>workspace := fs\<rparr>)
      | Inr (fs, interdigitation_dict) \<Rightarrow>
          Done (job\<lparr>workspace := fs,
                     document := (document job)
                       (''interdigitation'' \<mapsto> Dict interdigitation_dict)\<rparr>))"

subsection \<open>\<^verbatim>\<open>_log_interaction_energy\<close> and its three operations\<close>

definition priv_log_interaction_energy ::
  "'fs externals \<Rightarrow> 'fs job \<Rightarrow> string \<Rightarrow> 'fs job outcome" where
  "priv_log_interaction_energy ext job name =
     (case np_loadtxt ext (name @ ''-energy.xvg'') 24 (workspace job) of
        Inl e \<Rightarrow> Raised e job
      | Inr data \<Rightarrow>
          (case tail_column dbl_0_5 data 1 of
             Inl e \<Rightarrow> Raised e job
           | Inr coul_energy \<Rightarrow>
               (case tail_column dbl_0_5 data 2 of
                  Inl e \<Rightarrow> Raised e job
                | Inr lj_energy \<Rightarrow>
                    (let total_energy = np_add coul_energy lj_energy in
                     Done (job\<lparr>document := (document job)
                       (name @ ''-qq'' \<mapsto> Tuple (np_mean coul_energy) (np_std coul_energy),
                        name @ ''-lj'' \<mapsto> Tuple (np_mean lj_energy) (np_std lj_energy),
                        name @ ''-Etotal'' \<mapsto>
                          Tuple (np_mean total_energy) (np_std total_energy))\<rparr>)))))"

definition log_interaction_energy_5nN :: "'fs externals \<Rightarrow> 'fs job \<Rightarrow> 'fs job outcome" where
  "log_interaction_energy_5nN ext job = priv_log_interaction_energy ext job ''shear_5nN''"

definition log_interaction_energy_15nN :: "'fs externals \<Rightarrow> 'fs job \<Rightarrow> 'fs job outcome" where
  "log_interaction_energy_15nN ext job = priv_log_interaction_energy ext job ''shear_15nN''"

definition log_interaction_energy_25nN :: "'fs externals \<Rightarrow> 'fs job \<Rightarrow> 'fs job outcome" where
  "log_interaction_energy_25nN ext job = priv_log_interaction_energy ext job ''shear_25nN''"

section \<open>The correlation script \<^verbatim>\<open>cof-Dinterdigitation.py\<close>\<close>

text \<open>
  \<^verbatim>\<open>job.document['interdigitation'][label]\<close>: a missing key raises \<^verbatim>\<open>KeyError\<close>, and a
  stored value that is not a dictionary cannot be indexed by a string.
\<close>

definition doc_interdigitation :: "document \<Rightarrow> string \<Rightarrow> error + float64" where
  "doc_interdigitation doc label =
     (case doc ''interdigitation'' of
        None \<Rightarrow> Inl KeyError
      | Some (Dict d) \<Rightarrow> (case d label of None \<Rightarrow> Inl KeyError | Some v \<Rightarrow> Inr v)
      | Some _ \<Rightarrow> Inl TypeError)"

text \<open>
  The loop over the project's jobs that fills \<^verbatim>\<open>all_x\<close>, \<^verbatim>\<open>all_y\<close> and
  \<^verbatim>\<open>all_terminal_groups\<close>; the three lists start empty (\<open>no_samples\<close>).
\<close>

record samples =
  all_x :: "float64 list"
  all_y :: "docval list"
  all_terminal_groups :: "string list list"

definition no_samples :: samples where
  "no_samples = \<lparr>all_x = [], all_y = [], all_terminal_groups = []\<rparr>"

primrec collect_samples :: "'fs job list \<Rightarrow> samples \<Rightarrow> error + samples" where
  "collect_samples [] acc = Inr acc"
| "collect_samples (job # project) acc =
     (case doc_interdigitation (document job) ''25nN'' of
        Inl e \<Rightarrow> Inl e
      | Inr hi \<Rightarrow>
          (case doc_interdigitation (document job) ''5nN'' of
             Inl e \<Rightarrow> Inl e
           | Inr lo \<Rightarrow>
               (case document job ''COF'' of
                  None \<Rightarrow> Inl KeyError
                | Some cof \<Rightarrow>
                    collect_samples project
                      \<lparr>all_x = all_x acc @ [fsub hi lo],
                       all_y = all_y acc @ [cof],
                       all_terminal_groups =
                         all_terminal_groups acc @ [sp_terminal_groups job]\<rparr>)))"

text \<open>
  The two masks: \<^verbatim>\<open>inlier_mask\<close> is what the fitted RANSAC regressor reports (one flag
  per sample), \<^verbatim>\<open>outlier_mask = np.logical_not(inlier_mask)\<close>.
\<close>

definition outlier_mask :: "bool list \<Rightarrow> bool list" where
  "outlier_mask inlier_mask = np_logical_not inlier_mask"

section \<open>Example inputs\<close>

text \<open>
  A workspace whose files are the tables that \<^verbatim>\<open>np.loadtxt\<close> would read, by name. The
  example analyses write a table of five rows and three columns (time, bottom, top)
  to their output file.
\<close>

definition example_table :: ndarray where
  "example_table =
     Arr2 3 [[0, 1, 10], [1, 2, 20], [2, 3, 30], [3, 4, 40], [4, 5, 50]]"

definition friction_table :: "real \<Rightarrow> ndarray" where
  "friction_table v =
     Arr2 2 [[0, 9], [1, 8], [2, 7], [3, v - 1 / 2], [4, v + 1 / 2]]"

definition example_ext :: "(string \<rightharpoonup> ndarray) externals" where
  "example_ext =
     \<lparr>np_loadtxt = (\<lambda>name skiprows fs.
        case fs name of None \<Rightarrow> Inl OSError | Some a \<Rightarrow> Inr a),
      calc_nematic_order = (\<lambda>traj top out ndx n fs. (None, fs(out \<mapsto> example_table))),
      calc_avg_tilt_angle = (\<lambda>traj top out ndx n fs. (None, fs(out \<mapsto> example_table))),
      atools_calc_interdigitation =
        (\<lambda>traj top out ndx fs. (None, fs(out \<mapsto> example_table)))\<rparr>"

definition example_job :: "(string \<rightharpoonup> ndarray) job" where
  "example_job =
     \<lparr>sp_n = 100,
      sp_terminal_groups = [''methyl'', ''hydroxyl''],
      workspace =
        [''friction_5nN.txt'' \<mapsto> friction_table 1,
         ''friction_15nN.txt'' \<mapsto> friction_table 2,
         ''friction_25nN.txt'' \<mapsto> friction_table 3,
         ''shear_5nN-energy.xvg'' \<mapsto> example_table,
         ''shear_15nN-energy.xvg'' \<mapsto> example_table,
         ''shear_25nN-energy.xvg'' \<mapsto> example_table],
      document = [''note'' \<mapsto> Float (Num 7)]\<rparr>"

text \<open>
  Analyses that write nothing, and the same job with no file in its workspace: every
  load fails.
\<close>

definition example_failing_ext :: "(string \<rightharpoonup> ndarray) externals" where
  "example_failing_ext =
     example_ext
       \<lparr>calc_nematic_order := (\<lambda>traj top out ndx n fs. (None, fs)),
        calc_avg_tilt_angle := (\<lambda>traj top out ndx n fs. (None, fs)),
        atools_calc_interdigitation := (\<lambda>traj top out ndx fs. (None, fs))\<rparr>"

definition example_empty_job :: "(string \<rightharpoonup> ndarray) job" where
  "example_empty_job = example_job\<lparr>workspace := Map.empty\<rparr>"

text \<open>Two jobs whose documents hold the results the correlation script reads.\<close>

definition example_done_job :: "real \<Rightarrow> real \<Rightarrow> real \<Rightarrow> (string \<rightharpoonup> ndarray) job" where
  "example_done_job lo hi cof =
     example_empty_job
       \<lparr>document :=
          [''interdigitation'' \<mapsto>
             Dict [''5nN'' \<mapsto> Num lo, ''15nN'' \<mapsto> Num ((lo + hi) / 2), ''25nN'' \<mapsto> Num hi],
           ''COF'' \<mapsto> Float (Num cof)]\<rparr>"

definition example_project :: "(string \<rightharpoonup> ndarray) job list" where
  "example_project = [example_done_job 1 3 (1 / 10), example_done_job 2 (5 / 2) (1 / 5)]"

section \<open>The start index is the exact floor\<close>

text \<open>
  For fewer than \<open>2^50\<close> rows the rounded double product truncates to the floor of the
  exact product with the decimal fraction: \<^verbatim>\<open>int(n*0.6)\<close> is \<open>3n div 5\<close> and \<^verbatim>\<open>int(n*0.5)\<close>
  is \<open>n div 2\<close>. (An array of \<open>2^50\<close> rows of two doubles would take \<open>2^54\<close> bytes.)
\<close>

lemma bit_length_upper: "n < 2 ^ bit_length n"
proof (induction n rule: bit_length.induct)
  case (1 n)
  show ?case
  proof (cases "n = 0")
    case True
    then show ?thesis by (simp add: bit_length.simps)
  next
    case False
    from 1[OF False] have "n div 2 < 2 ^ bit_length (n div 2)" .
    then have "n < 2 * 2 ^ bit_length (n div 2)" by linarith
    with False show ?thesis by (simp add: bit_length.simps[of n])
  qed
qed

lemma bit_length_lower: "0 < n \<Longrightarrow> 2 ^ (bit_length n - 1) \<le> n"
proof (induction n rule: bit_length.induct)
  case (1 n)
  then have nz: "n \<noteq> 0" by simp
  show ?case
  proof (cases "n div 2 = 0")
    case True
    then have "bit_length (n div 2) = 0" by (simp add: bit_length.simps)
    with nz have "bit_length n = 1" by (simp add: bit_length.simps[of n])
    with 1 show ?thesis by simp
  next
    case False
    then have pos: "0 < n div 2" by simp
    from 1(1)[OF nz pos] have ih: "2 ^ (bit_length (n div 2) - 1) \<le> n div 2" .
    from False have "bit_length (n div 2) = Suc (bit_length (n div 2 div 2))"
      by (simp add: bit_length.simps[of "n div 2"])
    then obtain k where k: "bit_length (n div 2) = Suc k" by blast
    from nz have bn: "bit_length n = Suc (Suc k)" by (simp add: bit_length.simps[of n] k)
    from ih k have "2 ^ k \<le> n div 2" by simp
    then have "2 * 2 ^ k \<le> n" by linarith
    with bn show ?thesis by simp
  qed
qed

lemma bit_length_le: "n < 2 ^ k \<Longrightarrow> bit_length n \<le> k"
proof (cases "n = 0")
  case True
  then show ?thesis by (simp add: bit_length.simps)
next
  case False
  assume "n < 2 ^ k"
  from bit_length_lower[of n] False have "(2::nat) ^ (bit_length n - 1) \<le> n" by simp
  with \<open>n < 2 ^ k\<close> have "(2::nat) ^ (bit_length n - 1) < 2 ^ k" by linarith
  then have "bit_length n - 1 < k" using power_less_imp_less_exp[of 2 "bit_length n - 1" k] by simp
  then show ?thesis by linarith
qed

lemma round_props:
  fixes N :: nat
  defines "g \<equiv> 2 ^ (bit_length N - 53)"
  defines "R \<equiv> round_half_even_53 N"
  shows "g dvd R" "2 * R \<le> 2 * N + g" "2 * N \<le> 2 * R + g"
proof -
  define q where "q = N div g"
  define r where "r = N mod g"
  have gpos: "0 < g" by (simp add: g_def)
  have N: "N = q * g + r" by (simp add: q_def r_def)
  have rlt: "r < g" using gpos by (simp add: r_def)
  have R: "R = (if g < 2 * r \<or> (2 * r = g \<and> odd q) then q + 1 else q) * g"
    by (simp add: R_def round_half_even_53_def Let_def g_def q_def r_def)
  show "g dvd R" by (simp add: R)
  show "2 * R \<le> 2 * N + g"
    using N rlt by (auto simp: R algebra_simps)
  show "2 * N \<le> 2 * R + g"
    using N rlt by (auto simp: R algebra_simps)
qed

lemma round_small: "N < 2 ^ 53 \<Longrightarrow> round_half_even_53 N = N"
proof -
  assume "N < 2 ^ 53"
  then have "bit_length N \<le> 53" by (rule bit_length_le)
  then have "bit_length N - 53 = 0" by simp
  then show ?thesis by (simp add: round_half_even_53_def)
qed

lemma dvd_gap: "g dvd a \<Longrightarrow> g dvd b \<Longrightarrow> a < b \<Longrightarrow> a + g \<le> (b::nat)"
proof -
  assume "g dvd a" "g dvd b" "a < b"
  then obtain k l where a: "a = g * k" and b: "b = g * l" by (auto elim!: dvdE)
  with \<open>a < b\<close> have "k < l" by (metis mult_less_cancel1)
  then have "Suc k \<le> l" by simp
  then have "g * Suc k \<le> g * l" by (rule mult_le_mono2)
  with a b show ?thesis by simp
qed


lemma py_int_mul_0_6:
  assumes len: "len < 2 ^ 50"
  shows "py_int_mul len dbl_0_6 = 3 * len div 5"
proof -
  define N where "N = len * dbl_0_6"
  define s where "s = bit_length N - 53"
  define g :: nat where "g = 2 ^ s"
  define R where "R = round_half_even_53 N"
  define t where "t = 3 * len div 5"
  have len': "len < 1125899906842624" using len by simp
  have fl: "py_float len = len"
    unfolding py_float_def by (rule round_small) (use len' in simp)
  have N5: "5 * N + len = 27021597764222976 * len"
    by (simp add: N_def dbl_0_6_def)
  have "3 * len = 5 * t + 3 * len mod 5" and "3 * len mod 5 < 5"
    by (simp_all add: t_def)
  then have t1: "5 * t \<le> 3 * len" and t2: "3 * len < 5 * t + 5"
    by linarith+
  have Nlt: "N < 2 ^ 106"
  proof -
    have "N < 1125899906842624 * 9007199254740992"
      using N5 len' by linarith
    then show ?thesis by simp
  qed
  then have "bit_length N \<le> 106" by (rule bit_length_le)
  then have s53: "s \<le> 53" by (simp add: s_def)
  have gdvd: "g dvd 2 ^ 53" unfolding g_def using s53 by (rule le_imp_power_dvd)
  have "N < 2 ^ bit_length N" by (rule bit_length_upper)
  also have "\<dots> \<le> 2 ^ (s + 53)" by (rule power_increasing) (simp_all add: s_def)
  finally have Ng: "N < g * 9007199254740992" by (simp add: g_def power_add)
  have gsmall: "g < 2251799813685248"
  proof (cases "s = 0")
    case True
    then show ?thesis by (simp add: g_def)
  next
    case False
    then have bl: "bit_length N = s + 53" and Npos: "0 < N"
      by (auto simp: s_def bit_length.simps[of 0] intro: Nat.gr0I)
    from bit_length_lower[OF Npos] bl have "2 ^ (s + 52) \<le> N" by (simp add: add.commute)
    then have "g * 4503599627370496 \<le> N" by (simp add: g_def power_add)
    with N5 len' show ?thesis by linarith
  qed
  have gpos: "0 < g" by (simp add: g_def)
  have rp: "g dvd R" "2 * R \<le> 2 * N + g" "2 * N \<le> 2 * R + g"
    using round_props[of N] by (simp_all add: R_def g_def s_def)
  have lower: "t * 9007199254740992 \<le> R"
  proof (rule ccontr)
    assume "\<not> t * 9007199254740992 \<le> R"
    then have lt: "R < t * 9007199254740992" by simp
    have "g dvd t * 9007199254740992" using gdvd by simp
    from dvd_gap[OF rp(1) this lt] have "R + g \<le> t * 9007199254740992" .
    with rp(3) N5 Ng t1 gpos show False by linarith
  qed
  have upper: "R < (t + 1) * 9007199254740992"
  proof -
    have a: "3 * len \<le> 5 * t + 4" using t2 by linarith
    have "18014398509481984 * (3 * len) \<le> 18014398509481984 * (5 * t + 4)"
      using a by (rule mult_le_mono2)
    then have b: "54043195528445952 * len \<le> 90071992547409920 * t + 72057594037927936"
      by simp
    have c: "10 * R \<le> 10 * N + 5 * g" using rp(2) by linarith
    have d: "10 * N \<le> 54043195528445952 * len" using N5 by linarith
    have "10 * R < 90071992547409920 * t + 90071992547409920"
      using b c d gsmall by linarith
    then show ?thesis by simp
  qed
  have "R div 9007199254740992 = t"
    using lower upper by (simp add: div_nat_eqI)
  then show ?thesis
    by (simp add: py_int_mul_def fl R_def N_def t_def)
qed

lemma py_int_mul_0_5:
  assumes len: "len < 2 ^ 50"
  shows "py_int_mul len dbl_0_5 = len div 2"
proof -
  define N where "N = len * dbl_0_5"
  define s where "s = bit_length N - 53"
  have len': "len < 1125899906842624" using len by simp
  have fl: "py_float len = len"
    unfolding py_float_def by (rule round_small) (use len' in simp)
  have N2: "N = len * 2 ^ 52" by (simp add: N_def dbl_0_5_def)
  have "N < 2 ^ 105"
  proof -
    have "N < 1125899906842624 * 4503599627370496" using len' by (simp add: N_def dbl_0_5_def)
    then show ?thesis by simp
  qed
  then have "bit_length N \<le> 105" by (rule bit_length_le)
  then have s52: "s \<le> 52" by (simp add: s_def)
  have "(2::nat) ^ s dvd 2 ^ 52" using s52 by (rule le_imp_power_dvd)
  then have "2 ^ s dvd N" unfolding N2 by (rule dvd_mult)
  then have r0: "N mod 2 ^ s = 0" by simp
  have "round_half_even_53 N = N"
    using r0 \<open>2 ^ s dvd N\<close> by (simp add: round_half_even_53_def Let_def s_def[symmetric])
  then show ?thesis
    by (simp add: py_int_mul_def fl N_def[symmetric]) (simp add: N_def dbl_0_5_def)
qed



lemma skip_index:
  assumes "n < 2 ^ 50"
  shows "py_int_mul n dbl_0_6 = 3 * n div 5" and "py_int_mul n dbl_0_5 = n div 2"
  using assms by (rule py_int_mul_0_6, rule py_int_mul_0_5)

section \<open>The reducer\<close>

text \<open>The tail window of a two-dimensional table, with the start index computed.\<close>

lemma tail_column_Arr2:
  assumes "length rows < 2 ^ 50" "col < m"
  shows "tail_column dbl_0_6 (Arr2 m rows) col
           = Inr (map (\<lambda>r. r ! col) (drop (3 * length rows div 5) rows))"
    and "tail_column dbl_0_5 (Arr2 m rows) col
           = Inr (map (\<lambda>r. r ! col) (drop (length rows div 2) rows))"
  using assms by (simp_all add: tail_column_def skip_index)

lemma example_table_tails:
  "tail_column dbl_0_6 example_table 1 = Inr [4, 5]"
  "tail_column dbl_0_6 example_table 2 = Inr [40, 50]"
  "tail_column dbl_0_5 example_table 1 = Inr [3, 4, 5]"
  "tail_column dbl_0_5 example_table 2 = Inr [30, 40, 50]"
  unfolding example_table_def by (subst tail_column_Arr2; simp)+

text \<open>
  Claim C10. For a table of at least one row (and fewer than \<open>2^50\<close>), the start indices
  \<^verbatim>\<open>int(len*0.6)\<close> and \<^verbatim>\<open>int(len*0.5)\<close> are below the number of rows, so the tail window
  of an existing column is not empty; the window is empty exactly when the table has
  no row.
\<close>

theorem tail_window_nonempty:
  assumes "length rows < 2 ^ 50" and "col < m"
  shows "(rows \<noteq> [] \<longrightarrow> py_int_mul (length rows) dbl_0_6 < length rows
            \<and> py_int_mul (length rows) dbl_0_5 < length rows)
       \<and> (\<exists>w6 w5. tail_column dbl_0_6 (Arr2 m rows) col = Inr w6
            \<and> tail_column dbl_0_5 (Arr2 m rows) col = Inr w5
            \<and> (w6 = [] \<longleftrightarrow> rows = []) \<and> (w5 = [] \<longleftrightarrow> rows = []))"
proof -
  have i6: "py_int_mul (length rows) dbl_0_6 = 3 * length rows div 5"
    and i5: "py_int_mul (length rows) dbl_0_5 = length rows div 2"
    using assms(1) by (rule skip_index)+
  have idx: "rows \<noteq> [] \<longrightarrow> 3 * length rows div 5 < length rows \<and> length rows div 2 < length rows"
  proof
    assume "rows \<noteq> []"
    then have "0 < length rows" by simp
    then show "3 * length rows div 5 < length rows \<and> length rows div 2 < length rows"
      by (simp add: div_less_iff_less_mult)
  qed
  have d: "(map (\<lambda>r. r ! col) (drop (3 * length rows div 5) rows) = []) = (rows = [])"
          "(map (\<lambda>r. r ! col) (drop (length rows div 2) rows) = []) = (rows = [])"
    using idx by (cases "rows = []"; simp)+
  from idx have "rows \<noteq> [] \<longrightarrow> py_int_mul (length rows) dbl_0_6 < length rows
            \<and> py_int_mul (length rows) dbl_0_5 < length rows"
    by (simp only: i6 i5)
  with tail_column_Arr2[OF assms] d show ?thesis by blast
qed

theorem tail_window_nonempty_witness:
  "py_int_mul 5 dbl_0_6 < 5 \<and> py_int_mul 5 dbl_0_5 < 5
   \<and> tail_column dbl_0_6 example_table 1 = Inr [4, 5]
   \<and> tail_column dbl_0_5 example_table 1 = Inr [3, 4, 5]"
proof -
  have a: "length [[0, 1, 10], [1, 2, 20], [2, 3, 30], [3, 4, 40], [4, 5, 50 :: real]] < 2 ^ 50"
    by simp
  have b: "(1 :: nat) < 3" by simp
  have len: "length [[0, 1, 10], [1, 2, 20], [2, 3, 30], [3, 4, 40], [4, 5, 50 :: real]] = 5"
    by simp
  from tail_window_nonempty [OF a b]
  have "py_int_mul 5 dbl_0_6 < 5 \<and> py_int_mul 5 dbl_0_5 < 5" unfolding len by simp
  with example_table_tails(1,3) show ?thesis by blast
qed





text \<open>
  Claim C1, as stated, fails: on a table of shape \<open>(0, 3)\<close> the reducer returns NaN; it
  does not fail with \<^verbatim>\<open>InsufficientDataError\<close>.
\<close>

theorem empty_series_counterexample:
  "tail_mean dbl_0_6 (Arr2 3 []) 1 = Inr NaN
   \<and> tail_mean dbl_0_6 (Arr2 3 []) 1 \<noteq> Inl InsufficientDataError"
  by (simp add: tail_mean_def tail_column_def np_mean_def)

text \<open>
  Claim C1, amended. Whenever the tail window is empty the reducer returns NaN, the
  mean of an empty slice; a two-dimensional table without rows has an empty window. On
  a one-dimensional array (what \<^verbatim>\<open>np.loadtxt\<close> makes of an empty or a one-line file) the
  slice raises \<^verbatim>\<open>IndexError\<close>. In no case does the reducer fail with
  \<^verbatim>\<open>InsufficientDataError\<close>.
\<close>

theorem empty_window_is_nan:
  "(tail_column skip data col = Inr [] \<longrightarrow> tail_mean skip data col = Inr NaN)
   \<and> (col < m \<longrightarrow> tail_column skip (Arr2 m []) col = Inr [])
   \<and> tail_mean skip (Arr1 xs) col = Inl IndexError
   \<and> tail_mean skip data col \<noteq> Inl InsufficientDataError"
proof -
  have "tail_column skip data col \<noteq> Inl InsufficientDataError"
    by (cases data) (auto simp: tail_column_def)
  then have "tail_mean skip data col \<noteq> Inl InsufficientDataError"
    by (auto simp: tail_mean_def split: sum.splits)
  then show ?thesis
    by (simp add: tail_mean_def tail_column_def np_mean_def)
qed

theorem empty_window_is_nan_witness:
  "tail_column dbl_0_5 (Arr2 3 []) 2 = Inr [] \<and> tail_mean dbl_0_5 (Arr2 3 []) 2 = Inr NaN
   \<and> tail_mean dbl_0_5 (Arr1 []) 2 = Inl IndexError"
  using empty_window_is_nan [of dbl_0_5 "Arr2 3 []" 2 3 "[]"]
  by (simp add: tail_column_def)

section \<open>The friction regression\<close>

text \<open>
  The names made from the three loads.
\<close>

lemma py_str_loads: "py_str 5 = ''5''" "py_str 15 = ''15''" "py_str 25 = ''25''"
  by (simp_all add: py_str_def digits10.simps digit_char_def)

lemma load_key_loads:
  "load_key 5 = ''5nN''" "load_key 15 = ''15nN''" "load_key 25 = ''25nN''"
  by (simp_all add: load_key_def py_str_loads)

lemma shear_name_loads:
  "shear_name 5 = ''shear_5nN''" "shear_name 15 = ''shear_15nN''"
  "shear_name 25 = ''shear_25nN''"
  by (simp_all add: shear_name_def py_str_loads)

lemma linregress_noiseless:
  "linregress [5, 15, 25] [Num 1, Num 2, Num 3]
     = Inr \<lparr>slope = Num (1 / 10), intercept = Num (1 / 2)\<rparr>"
  by (simp add: linregress_def Let_def)

lemma example_friction_loop:
  "friction_loop example_ext (workspace example_job) [5, 15, 25] []
     = Inr [Num 1, Num 2, Num 3]"
  by (simp add: example_ext_def example_job_def py_str_loads friction_table_def
      tail_column_Arr2 np_mean_def)

text \<open>
  Claim C4. With loads \<^verbatim>\<open>[5, 15, 25]\<close> and mean friction forces 1, 2 and 3 the
  least-squares fit has slope \<open>1/10\<close> and intercept \<open>1/2\<close>, and \<^verbatim>\<open>log_cof\<close> stores these
  two values as \<^verbatim>\<open>COF\<close> and \<^verbatim>\<open>intercept\<close>. The arithmetic is exact (see
  \<^typ>\<open>float64\<close>).
\<close>

theorem regression_noiseless:
  assumes "friction_loop ext (workspace job) [5, 15, 25] [] = Inr [Num 1, Num 2, Num 3]"
  shows "linregress [5, 15, 25] [Num 1, Num 2, Num 3]
           = Inr \<lparr>slope = Num (1 / 10), intercept = Num (1 / 2)\<rparr>
       \<and> log_cof ext job
           = Done (job\<lparr>document := (document job)
                (''COF'' \<mapsto> Float (Num (1 / 10)), ''intercept'' \<mapsto> Float (Num (1 / 2)))\<rparr>)"
  unfolding log_cof_def log_cof_loads_def assms
  by (simp add: linregress_noiseless)

theorem regression_noiseless_witness:
  "friction_loop example_ext (workspace example_job) [5, 15, 25] []
     = Inr [Num 1, Num 2, Num 3]
   \<and> log_cof example_ext example_job
     = Done (example_job\<lparr>document := (document example_job)
          (''COF'' \<mapsto> Float (Num (1 / 10)), ''intercept'' \<mapsto> Float (Num (1 / 2)))\<rparr>)"
  using regression_noiseless [OF example_friction_loop] example_friction_loop by simp

text \<open>
  Claim C5. When \<^verbatim>\<open>log_cof\<close> completes, the document holds under \<^verbatim>\<open>COF\<close> and
  \<^verbatim>\<open>intercept\<close> the slope and the intercept that \<^verbatim>\<open>linregress\<close> returned for the loads
  and the mean friction forces, unchanged.
\<close>

theorem cof_is_regression_slope:
  assumes "log_cof ext job = Done job'"
  shows "\<exists>friction_forces res.
           friction_loop ext (workspace job) [5, 15, 25] [] = Inr friction_forces
         \<and> linregress [5, 15, 25] friction_forces = Inr res
         \<and> document job' ''COF'' = Some (Float (slope res))
         \<and> document job' ''intercept'' = Some (Float (intercept res))"
  using assms
  by (auto simp: log_cof_def log_cof_loads_def split: sum.splits)

theorem cof_is_regression_slope_witness:
  "\<exists>job'. log_cof example_ext example_job = Done job'
     \<and> linregress [5, 15, 25] [Num 1, Num 2, Num 3]
         = Inr \<lparr>slope = Num (1 / 10), intercept = Num (1 / 2)\<rparr>
     \<and> document job' ''COF'' = Some (Float (Num (1 / 10)))
     \<and> document job' ''intercept'' = Some (Float (Num (1 / 2)))"
proof -
  have run: "log_cof example_ext example_job
     = Done (example_job\<lparr>document := (document example_job)
          (''COF'' \<mapsto> Float (Num (1 / 10)), ''intercept'' \<mapsto> Float (Num (1 / 2)))\<rparr>)"
    unfolding log_cof_def log_cof_loads_def example_friction_loop
    by (simp add: linregress_noiseless)
  from cof_is_regression_slope [OF run] show ?thesis
    by (simp add: run example_friction_loop linregress_noiseless)
qed

section \<open>Writes to the job document\<close>

lemma example_failures:
  "calc_S2_shear example_failing_ext example_empty_job = Raised OSError example_empty_job"
  "calc_tilt_shear example_failing_ext example_empty_job = Raised OSError example_empty_job"
  "log_cof example_failing_ext example_empty_job = Raised OSError example_empty_job"
  "calc_interdigitation example_failing_ext example_empty_job
     = Raised OSError example_empty_job"
  "log_interaction_energy_5nN example_failing_ext example_empty_job
     = Raised OSError example_empty_job"
  "log_interaction_energy_15nN example_failing_ext example_empty_job
     = Raised OSError example_empty_job"
  "log_interaction_energy_25nN example_failing_ext example_empty_job
     = Raised OSError example_empty_job"
  by (simp_all add: calc_S2_shear_def calc_tilt_shear_def log_cof_def log_cof_loads_def
      calc_interdigitation_def log_interaction_energy_5nN_def log_interaction_energy_15nN_def
      log_interaction_energy_25nN_def priv_log_interaction_energy_def
      priv_calc_S2_def priv_calc_tilt_def priv_calc_interdigitation_def
      example_failing_ext_def example_ext_def example_empty_job_def example_job_def)

lemma example_table_tails_Suc:
  "tail_column dbl_0_6 example_table (Suc 0) = Inr [4, 5]"
  "tail_column dbl_0_5 example_table (Suc 0) = Inr [3, 4, 5]"
  using example_table_tails by simp_all

lemma example_S2:
  "calc_S2_shear example_ext example_job
     = Done (example_job
         \<lparr>workspace := (workspace example_job)
            (''shear_5nN-S2.txt'' \<mapsto> example_table,
             ''shear_15nN-S2.txt'' \<mapsto> example_table,
             ''shear_25nN-S2.txt'' \<mapsto> example_table),
          document := (document example_job)
            (''S2_bottom'' \<mapsto>
               Dict [''5nN'' \<mapsto> Num (9 / 2), ''15nN'' \<mapsto> Num (9 / 2), ''25nN'' \<mapsto> Num (9 / 2)],
             ''S2_top'' \<mapsto>
               Dict [''5nN'' \<mapsto> Num 45, ''15nN'' \<mapsto> Num 45, ''25nN'' \<mapsto> Num 45])\<rparr>)"
  by (simp add: calc_S2_shear_def priv_calc_S2_def example_ext_def shear_name_loads
      load_key_loads example_table_tails example_table_tails_Suc np_mean_def)

lemma example_tilt:
  "calc_tilt_shear example_ext example_job
     = Done (example_job
         \<lparr>workspace := (workspace example_job)
            (''shear_5nN-tilt.txt'' \<mapsto> example_table,
             ''shear_15nN-tilt.txt'' \<mapsto> example_table,
             ''shear_25nN-tilt.txt'' \<mapsto> example_table),
          document := (document example_job)
            (''tilt_bottom'' \<mapsto>
               Dict [''5nN'' \<mapsto> Num (9 / 2), ''15nN'' \<mapsto> Num (9 / 2), ''25nN'' \<mapsto> Num (9 / 2)],
             ''tilt_top'' \<mapsto>
               Dict [''5nN'' \<mapsto> Num 45, ''15nN'' \<mapsto> Num 45, ''25nN'' \<mapsto> Num 45])\<rparr>)"
  by (simp add: calc_tilt_shear_def priv_calc_tilt_def example_ext_def shear_name_loads
      load_key_loads example_table_tails example_table_tails_Suc np_mean_def)

lemma example_interdigitation:
  "calc_interdigitation example_ext example_job
     = Done (example_job
         \<lparr>workspace := (workspace example_job)
            (''shear_5nN-interdigitation.txt'' \<mapsto> example_table,
             ''shear_15nN-interdigitation.txt'' \<mapsto> example_table,
             ''shear_25nN-interdigitation.txt'' \<mapsto> example_table),
          document := (document example_job)
            (''interdigitation'' \<mapsto>
               Dict [''5nN'' \<mapsto> Num (9 / 2), ''15nN'' \<mapsto> Num (9 / 2), ''25nN'' \<mapsto> Num (9 / 2)])\<rparr>)"
  by (simp add: calc_interdigitation_def priv_calc_interdigitation_def example_ext_def
      shear_name_loads load_key_loads example_table_tails example_table_tails_Suc np_mean_def)

text \<open>
  Claim C9. An operation that ends with an exception leaves the job document as it
  found it: every statement that can raise (an analysis, a load, a slice, the
  regression) comes before the operation's first assignment to the document, and the
  assignments themselves do not raise.
\<close>

theorem failed_stage_writes_nothing:
  "(calc_S2_shear ext job = Raised e job' \<longrightarrow> document job' = document job)
   \<and> (calc_tilt_shear ext job = Raised e job' \<longrightarrow> document job' = document job)
   \<and> (log_cof ext job = Raised e job' \<longrightarrow> document job' = document job)
   \<and> (calc_interdigitation ext job = Raised e job' \<longrightarrow> document job' = document job)
   \<and> (log_interaction_energy_5nN ext job = Raised e job' \<longrightarrow> document job' = document job)
   \<and> (log_interaction_energy_15nN ext job = Raised e job' \<longrightarrow> document job' = document job)
   \<and> (log_interaction_energy_25nN ext job = Raised e job' \<longrightarrow> document job' = document job)"
proof -
  have s2: "calc_S2_shear ext job = Raised e job' \<longrightarrow> document job' = document job"
    unfolding calc_S2_shear_def Let_def
    by (auto simp del: analyse_loads.simps surface_means_loop.simps
        split: prod.splits option.splits sum.splits)
  have tilt: "calc_tilt_shear ext job = Raised e job' \<longrightarrow> document job' = document job"
    unfolding calc_tilt_shear_def Let_def
    by (auto simp del: analyse_loads.simps surface_means_loop.simps
        split: prod.splits option.splits sum.splits)
  have cof: "log_cof ext job = Raised e job' \<longrightarrow> document job' = document job"
    unfolding log_cof_def log_cof_loads_def
    by (auto simp del: friction_loop.simps split: sum.splits)
  have inter: "calc_interdigitation ext job = Raised e job' \<longrightarrow> document job' = document job"
    unfolding calc_interdigitation_def
    by (auto simp del: interdigitation_loop.simps split: prod.splits sum.splits)
  have energy: "priv_log_interaction_energy ext job name = Raised e job'
      \<longrightarrow> document job' = document job" for name
    unfolding priv_log_interaction_energy_def Let_def
    by (auto split: sum.splits)
  show ?thesis
    using s2 tilt cof inter energy
    by (simp add: log_interaction_energy_5nN_def log_interaction_energy_15nN_def
        log_interaction_energy_25nN_def)
qed

theorem failed_stage_writes_nothing_witness:
  "calc_S2_shear example_failing_ext example_empty_job = Raised OSError example_empty_job
   \<and> calc_tilt_shear example_failing_ext example_empty_job = Raised OSError example_empty_job
   \<and> log_cof example_failing_ext example_empty_job = Raised OSError example_empty_job
   \<and> calc_interdigitation example_failing_ext example_empty_job
       = Raised OSError example_empty_job
   \<and> log_interaction_energy_5nN example_failing_ext example_empty_job
       = Raised OSError example_empty_job
   \<and> log_interaction_energy_15nN example_failing_ext example_empty_job
       = Raised OSError example_empty_job
   \<and> log_interaction_energy_25nN example_failing_ext example_empty_job
       = Raised OSError example_empty_job
   \<and> document example_empty_job ''note'' = Some (Float (Num 7))"
proof -
  have n: "document example_empty_job ''note'' = Some (Float (Num 7))"
    by (simp add: example_empty_job_def example_job_def)
  from failed_stage_writes_nothing
    [of example_failing_ext example_empty_job OSError example_empty_job]
    example_failures n
  show ?thesis by simp
qed

text \<open>
  Claim C8. Running a per-load aggregator again on the same input files, on the job
  as the first run left it, ends with the same job: the stored mappings are
  overwritten with equal values.
\<close>

theorem aggregator_idempotent:
  "(calc_S2_shear ext job = Done job1
      \<longrightarrow> calc_S2_shear ext (job1\<lparr>workspace := workspace job\<rparr>) = Done job1)
   \<and> (calc_tilt_shear ext job = Done job1
      \<longrightarrow> calc_tilt_shear ext (job1\<lparr>workspace := workspace job\<rparr>) = Done job1)
   \<and> (calc_interdigitation ext job = Done job1
      \<longrightarrow> calc_interdigitation ext (job1\<lparr>workspace := workspace job\<rparr>) = Done job1)"
proof -
  have s2: "calc_S2_shear ext job = Done job1
      \<longrightarrow> calc_S2_shear ext (job1\<lparr>workspace := workspace job\<rparr>) = Done job1"
    unfolding calc_S2_shear_def Let_def
    by (auto simp del: analyse_loads.simps surface_means_loop.simps
        split: prod.splits option.splits sum.splits)
  have tilt: "calc_tilt_shear ext job = Done job1
      \<longrightarrow> calc_tilt_shear ext (job1\<lparr>workspace := workspace job\<rparr>) = Done job1"
    unfolding calc_tilt_shear_def Let_def
    by (auto simp del: analyse_loads.simps surface_means_loop.simps
        split: prod.splits option.splits sum.splits)
  have inter: "calc_interdigitation ext job = Done job1
      \<longrightarrow> calc_interdigitation ext (job1\<lparr>workspace := workspace job\<rparr>) = Done job1"
    unfolding calc_interdigitation_def
    by (auto simp del: interdigitation_loop.simps split: prod.splits sum.splits)
  from s2 tilt inter show ?thesis by blast
qed

theorem aggregator_idempotent_witness:
  "(\<exists>job1. calc_S2_shear example_ext example_job = Done job1
      \<and> calc_S2_shear example_ext (job1\<lparr>workspace := workspace example_job\<rparr>) = Done job1
      \<and> document job1 ''S2_top''
          = Some (Dict [''5nN'' \<mapsto> Num 45, ''15nN'' \<mapsto> Num 45, ''25nN'' \<mapsto> Num 45]))
   \<and> (\<exists>job1. calc_tilt_shear example_ext example_job = Done job1
      \<and> calc_tilt_shear example_ext (job1\<lparr>workspace := workspace example_job\<rparr>) = Done job1)
   \<and> (\<exists>job1. calc_interdigitation example_ext example_job = Done job1
      \<and> calc_interdigitation example_ext (job1\<lparr>workspace := workspace example_job\<rparr>)
          = Done job1)"
proof -
  obtain j1 where s2: "calc_S2_shear example_ext example_job = Done j1"
    and top: "document j1 ''S2_top''
          = Some (Dict [''5nN'' \<mapsto> Num 45, ''15nN'' \<mapsto> Num 45, ''25nN'' \<mapsto> Num 45])"
    using example_S2 by simp
  obtain j2 where tilt: "calc_tilt_shear example_ext example_job = Done j2"
    using example_tilt by simp
  obtain j3 where inter: "calc_interdigitation example_ext example_job = Done j3"
    using example_interdigitation by simp
  from aggregator_idempotent [of example_ext example_job j1] s2
  have "calc_S2_shear example_ext (j1\<lparr>workspace := workspace example_job\<rparr>) = Done j1"
    by blast
  moreover from aggregator_idempotent [of example_ext example_job j2] tilt
  have "calc_tilt_shear example_ext (j2\<lparr>workspace := workspace example_job\<rparr>) = Done j2"
    by blast
  moreover from aggregator_idempotent [of example_ext example_job j3] inter
  have "calc_interdigitation example_ext (j3\<lparr>workspace := workspace example_job\<rparr>) = Done j3"
    by blast
  ultimately show ?thesis using s2 top tilt inter by blast
qed

section \<open>The variables of the correlation\<close>

lemma collect_samples_acc:
  "collect_samples project acc = Inr s \<Longrightarrow>
     length (all_x s) = length (all_x acc) + length project
   \<and> length (all_y s) = length (all_y acc) + length project
   \<and> take (length (all_x acc)) (all_x s) = all_x acc
   \<and> take (length (all_y acc)) (all_y s) = all_y acc
   \<and> (\<forall>i < length project.
        \<exists>hi lo.
          doc_interdigitation (document (project ! i)) ''25nN'' = Inr hi
        \<and> doc_interdigitation (document (project ! i)) ''5nN'' = Inr lo
        \<and> all_x s ! (length (all_x acc) + i) = fsub hi lo
        \<and> document (project ! i) ''COF'' = Some (all_y s ! (length (all_y acc) + i)))"
proof (induction project arbitrary: acc)
  case Nil
  then show ?case by simp
next
  case (Cons job project)
  from Cons.prems obtain hi lo cof where
    hi: "doc_interdigitation (document job) ''25nN'' = Inr hi" and
    lo: "doc_interdigitation (document job) ''5nN'' = Inr lo" and
    cof: "document job ''COF'' = Some cof" and
    rest: "collect_samples project
             \<lparr>all_x = all_x acc @ [fsub hi lo], all_y = all_y acc @ [cof],
              all_terminal_groups = all_terminal_groups acc @ [sp_terminal_groups job]\<rparr>
           = Inr s"
    by (auto split: sum.splits option.splits)
  let ?acc = "\<lparr>all_x = all_x acc @ [fsub hi lo], all_y = all_y acc @ [cof],
              all_terminal_groups = all_terminal_groups acc @ [sp_terminal_groups job]\<rparr>"
  from Cons.IH [OF rest] have
    lx: "length (all_x s) = Suc (length (all_x acc)) + length project" and
    ly: "length (all_y s) = Suc (length (all_y acc)) + length project" and
    tx: "take (Suc (length (all_x acc))) (all_x s) = all_x acc @ [fsub hi lo]" and
    ty: "take (Suc (length (all_y acc))) (all_y s) = all_y acc @ [cof]" and
    ih: "\<forall>i < length project.
        \<exists>hi lo.
          doc_interdigitation (document (project ! i)) ''25nN'' = Inr hi
        \<and> doc_interdigitation (document (project ! i)) ''5nN'' = Inr lo
        \<and> all_x s ! (Suc (length (all_x acc)) + i) = fsub hi lo
        \<and> document (project ! i) ''COF'' = Some (all_y s ! (Suc (length (all_y acc)) + i))"
    by simp_all
  have x0: "all_x s ! length (all_x acc) = fsub hi lo"
  proof -
    have "all_x s ! length (all_x acc)
        = take (Suc (length (all_x acc))) (all_x s) ! length (all_x acc)" by simp
    then show ?thesis by (simp only: tx nth_append_length)
  qed
  have y0: "all_y s ! length (all_y acc) = cof"
  proof -
    have "all_y s ! length (all_y acc)
        = take (Suc (length (all_y acc))) (all_y s) ! length (all_y acc)" by simp
    then show ?thesis by (simp only: ty nth_append_length)
  qed
  have px: "take (length (all_x acc)) (all_x s) = all_x acc"
  proof -
    have "take (length (all_x acc)) (take (Suc (length (all_x acc))) (all_x s))
        = take (length (all_x acc)) (all_x s)" by simp
    then show ?thesis by (simp add: tx)
  qed
  have py: "take (length (all_y acc)) (all_y s) = all_y acc"
  proof -
    have "take (length (all_y acc)) (take (Suc (length (all_y acc))) (all_y s))
        = take (length (all_y acc)) (all_y s)" by simp
    then show ?thesis by (simp add: ty)
  qed
  have step: "\<exists>hi lo.
          doc_interdigitation (document ((job # project) ! i)) ''25nN'' = Inr hi
        \<and> doc_interdigitation (document ((job # project) ! i)) ''5nN'' = Inr lo
        \<and> all_x s ! (length (all_x acc) + i) = fsub hi lo
        \<and> document ((job # project) ! i) ''COF'' = Some (all_y s ! (length (all_y acc) + i))"
    if "i < length (job # project)" for i
  proof (cases i)
    case 0
    then show ?thesis using hi lo cof x0 y0 by simp
  next
    case (Suc k)
    with that have "k < length project" by simp
    with ih Suc show ?thesis by simp
  qed
  from lx ly px py step show ?case by simp
qed

lemma example_collect:
  "collect_samples example_project no_samples
     = Inr \<lparr>all_x = [Num 2, Num (1 / 2)],
            all_y = [Float (Num (1 / 10)), Float (Num (1 / 5))],
            all_terminal_groups = [[''methyl'', ''hydroxyl''], [''methyl'', ''hydroxyl'']]\<rparr>"
  by (simp add: example_project_def example_done_job_def example_empty_job_def
      example_job_def no_samples_def doc_interdigitation_def)

text \<open>
  Claim C6. When the loop over the project completes, there is one \<open>x\<close> and one \<open>y\<close> per
  job, in the order of the jobs; \<open>x\<close> is the job's stored interdigitation under the label
  of the highest load, \<^verbatim>\<open>25nN\<close>, minus the one under the label of the lowest load, \<^verbatim>\<open>5nN\<close>,
  and \<open>y\<close> is the job's stored \<^verbatim>\<open>COF\<close>.
\<close>

theorem correlation_variables:
  assumes "collect_samples project no_samples = Inr s"
  shows "length (all_x s) = length project \<and> length (all_y s) = length project
       \<and> (\<forall>i < length project.
            \<exists>hi lo.
              doc_interdigitation (document (project ! i)) (load_key 25) = Inr hi
            \<and> doc_interdigitation (document (project ! i)) (load_key 5) = Inr lo
            \<and> all_x s ! i = fsub hi lo
            \<and> document (project ! i) ''COF'' = Some (all_y s ! i))"
  using collect_samples_acc [OF assms]
  by (simp add: no_samples_def load_key_loads)

theorem correlation_variables_witness:
  "collect_samples example_project no_samples
     = Inr \<lparr>all_x = [Num 2, Num (1 / 2)],
            all_y = [Float (Num (1 / 10)), Float (Num (1 / 5))],
            all_terminal_groups = [[''methyl'', ''hydroxyl''], [''methyl'', ''hydroxyl'']]\<rparr>
   \<and> doc_interdigitation (document (example_project ! 1)) (load_key 25) = Inr (Num (5 / 2))
   \<and> doc_interdigitation (document (example_project ! 1)) (load_key 5) = Inr (Num 2)
   \<and> document (example_project ! 1) ''COF'' = Some (Float (Num (1 / 5)))"
proof -
  have d: "doc_interdigitation (document (example_project ! 1)) (load_key 25) = Inr (Num (5 / 2))"
      "doc_interdigitation (document (example_project ! 1)) (load_key 5) = Inr (Num 2)"
      "document (example_project ! 1) ''COF'' = Some (Float (Num (1 / 5)))"
    by (simp_all add: example_project_def example_done_job_def doc_interdigitation_def
        load_key_loads)
  from correlation_variables [OF example_collect] example_collect d
  show ?thesis by simp
qed

section \<open>The inlier and outlier masks\<close>

text \<open>
  Claim C7. The outlier mask has one flag per sample, and every sample is flagged as
  an inlier if and only if it is not flagged as an outlier.
\<close>

theorem outlier_mask_partition:
  "length (outlier_mask inlier_mask) = length inlier_mask \<and>
   (\<forall>i < length inlier_mask. inlier_mask ! i \<longleftrightarrow> \<not> outlier_mask inlier_mask ! i)"
  by (simp add: outlier_mask_def np_logical_not_def)

theorem outlier_mask_partition_witness:
  "length (outlier_mask [True, False, True]) = 3 \<and>
   outlier_mask [True, False, True] = [False, True, False] \<and>
   ([True, False, True] ! 1 \<longleftrightarrow> \<not> outlier_mask [True, False, True] ! 1)"
  using outlier_mask_partition [of "[True, False, True]"]
  by (simp add: outlier_mask_def np_logical_not_def)

end
